theory Spec2Isabelle
  imports Complex_Main "HOL-Library.Multiset"
begin

section \<open>The IoT sensor service of \<open>index.js\<close>\<close>

text \<open>
  \<open>index.js\<close> registers seven Express route handlers over one PostgreSQL pool. Each handler
  is embedded as a function from the ambient environment of one request, the contents of
  the two tables and the request's inputs to the response sent, the tables afterwards and
  the lines written with \<open>console.error\<close>.
\<close>

subsection \<open>JavaScript values\<close>

text \<open>
  The values found in \<open>req.body\<close> and \<open>req.query\<close> (whatever \<open>express.json\<close> and the query
  parser deliver; a missing key reads as \<open>undefined\<close>), in the rows the driver returns and
  in the bodies given to \<open>res.json\<close>. \<open>JDate t\<close> is a \<open>Date\<close> object whose time value is
  \<open>t\<close> milliseconds since the epoch. An object is the list of its entries in key order.
\<close>

datatype jsval =
    JUndefined
  | JNull
  | JBool bool
  | JNum rat
  | JStr string
  | JDate int
  | JArr "jsval list"
  | JObj "(string \<times> jsval) list"

text \<open>\<open>!v\<close> is \<open>\<not> truthy v\<close>: \<open>undefined\<close>, \<open>null\<close>, \<open>false\<close>, \<open>0\<close> and \<open>""\<close> are falsy.\<close>

fun truthy :: "jsval \<Rightarrow> bool" where
  "truthy JUndefined = False"
| "truthy JNull = False"
| "truthy (JBool b) = b"
| "truthy (JNum n) = (n \<noteq> 0)"
| "truthy (JStr s) = (s \<noteq> [])"
| "truthy (JDate t) = True"
| "truthy (JArr xs) = True"
| "truthy (JObj kvs) = True"

fun typeof :: "jsval \<Rightarrow> string" where
  "typeof JUndefined = ''undefined''"
| "typeof JNull = ''object''"
| "typeof (JBool b) = ''boolean''"
| "typeof (JNum n) = ''number''"
| "typeof (JStr s) = ''string''"
| "typeof (JDate t) = ''object''"
| "typeof (JArr xs) = ''object''"
| "typeof (JObj kvs) = ''object''"

text \<open>The rest pattern \<open>const { password: _, ...userSafeData } = row\<close>: every entry of the
  row but the one under the named key.\<close>

definition omit :: "string \<Rightarrow> (string \<times> jsval) list \<Rightarrow> (string \<times> jsval) list" where
  "omit k kvs = filter (\<lambda>kv. fst kv \<noteq> k) kvs"

text \<open>Property access \<open>obj.k\<close> on the entries of an object.\<close>

definition field :: "(string \<times> jsval) list \<Rightarrow> string \<Rightarrow> jsval" where
  "field kvs k = (case map_of kvs k of None \<Rightarrow> JUndefined | Some v \<Rightarrow> v)"

subsection \<open>The two tables\<close>

text \<open>
  The schema is not part of the repository; the columns are those the statements of
  \<open>index.js\<close> name. A column holds the JavaScript value that was bound to the statement's
  parameter (the conversion between JavaScript values and column types depends on the
  schema and is left out; for strings it is the identity). With text columns the driver
  would store a number, a boolean or an object under its text form, so what the theorems
  say of a device id or an email that is looked up, they say of strings.
  \<open>timestamp\<close> is an instant in microseconds since the epoch, the resolution of
  PostgreSQL's \<open>NOW()\<close>. A table is the list of its rows in the order a scan returns
  them; PostgreSQL does not fix where an updated row stands in that order, and no theorem
  below rests on it.
\<close>

record user =
  u_device_id :: jsval
  u_email :: jsval
  u_password :: jsval

record reading =
  r_device_id :: jsval
  r_temperature :: jsval
  r_humidity :: jsval
  r_air_quality :: jsval
  r_lpg_level :: jsval
  r_timestamp :: int

record db =
  users :: "user list"
  sensor_data :: "reading list"

text \<open>The row objects the driver builds for \<open>SELECT *\<close> and \<open>RETURNING *\<close>. A timestamp
  arrives as a \<open>Date\<close>, which keeps whole milliseconds.\<close>

definition user_row :: "user \<Rightarrow> (string \<times> jsval) list" where
  "user_row u =
     [(''device_id'', u_device_id u), (''email'', u_email u), (''password'', u_password u)]"

definition reading_row :: "reading \<Rightarrow> jsval" where
  "reading_row r = JObj
     [(''device_id'', r_device_id r), (''temperature'', r_temperature r),
      (''humidity'', r_humidity r), (''air_quality'', r_air_quality r),
      (''lpg_level'', r_lpg_level r), (''timestamp'', JDate (r_timestamp r div 1000))]"

text \<open>The driver binds \<open>undefined\<close> as \<open>NULL\<close>; SQL's \<open>=\<close> holds of no \<open>NULL\<close>.\<close>

definition prepareValue :: "jsval \<Rightarrow> jsval" where
  "prepareValue v = (if v = JUndefined then JNull else v)"

definition sql_eq :: "jsval \<Rightarrow> jsval \<Rightarrow> bool" where
  "sql_eq a b = (a \<noteq> JNull \<and> b \<noteq> JNull \<and> a = b)"

subsection \<open>The environment of one request\<close>

text \<open>
  What a handler reads from outside the repository while it serves one request:
  \<^item> \<open>hash_fn salt s\<close> and \<open>verify_fn s h\<close>: bcryptjs's hash of a string under a salt, and
    its comparison of a string with a stored string (which resolves to a boolean, or
    rejects with a message when the stored string is no bcrypt hash);
  \<^item> \<open>gen_salt\<close>: the salt bcryptjs draws for this request (cost factor 10);
  \<^item> \<open>date_fn v\<close>: the time value of \<open>new Date(v)\<close> in milliseconds, \<open>None\<close> for an
    invalid date (how a string is parsed is the engine's business);
  \<^item> \<open>pg_error\<close>: \<open>Some m\<close> when this request's \<open>pool.query\<close> rejects with an error whose
    message is \<open>m\<close> (the statement then has no effect on the tables);
  \<^item> \<open>pg_now\<close>: what \<open>NOW()\<close> evaluates to in this request's statement, in
    microseconds since the epoch.
\<close>

record env =
  hash_fn :: "string \<Rightarrow> string \<Rightarrow> string"
  verify_fn :: "string \<Rightarrow> string \<Rightarrow> string + bool"
  gen_salt :: string
  date_fn :: "jsval \<Rightarrow> int option"
  pg_error :: "string option"
  pg_now :: int

text \<open>\<open>bcrypt.hash(s, 10)\<close> and \<open>bcrypt.compare(s, hash)\<close>: both check first that their
  arguments are strings, and reject with the message below when they are not.\<close>

definition bcrypt_hash :: "env \<Rightarrow> jsval \<Rightarrow> string + string" where
  "bcrypt_hash e s =
     (case s of
        JStr p \<Rightarrow> Inr (hash_fn e (gen_salt e) p)
      | _ \<Rightarrow> Inl (''Illegal arguments: '' @ typeof s @ '', number''))"

definition bcrypt_compare :: "env \<Rightarrow> jsval \<Rightarrow> jsval \<Rightarrow> string + bool" where
  "bcrypt_compare e s h =
     (case s of
        JStr p \<Rightarrow>
          (case h of
             JStr c \<Rightarrow> verify_fn e p c
           | _ \<Rightarrow> Inl (''Illegal arguments: '' @ typeof s @ '', '' @ typeof h))
      | _ \<Rightarrow> Inl (''Illegal arguments: '' @ typeof s @ '', '' @ typeof h))"

text \<open>\<open>Date\<close>: a time value lies within 8.64e15 milliseconds of the epoch, and \<open>timeClip\<close>
  makes a date beyond that invalid. \<open>setUTCHours(h, m, s, ms)\<close> keeps the UTC day of a
  valid date, replaces the time within the day and clips the result, and leaves an
  invalid date invalid; \<open>toISOString\<close> throws a \<open>RangeError\<close> on an invalid date, and
  otherwise writes the instant with its milliseconds; the model passes the instant on in
  place of the string, and \<open>pg_timestamp\<close> is the timestamp PostgreSQL reads from that
  string.\<close>

definition msPerDay :: int where
  "msPerDay = 86400000"

definition timeClip :: "int \<Rightarrow> int option" where
  "timeClip t = (if \<bar>t\<bar> \<le> 8640000000000000 then Some t else None)"

definition setUTCHours :: "int option \<Rightarrow> int \<Rightarrow> int \<Rightarrow> int \<Rightarrow> int \<Rightarrow> int option" where
  "setUTCHours d h m s ms =
     (case d of
        None \<Rightarrow> None
      | Some t \<Rightarrow>
          timeClip ((t div msPerDay) * msPerDay + (((h * 60 + m) * 60 + s) * 1000 + ms)))"

definition toISOString :: "int option \<Rightarrow> string + int" where
  "toISOString d = (case d of None \<Rightarrow> Inl ''Invalid time value'' | Some t \<Rightarrow> Inr t)"

definition pg_timestamp :: "int \<Rightarrow> int" where
  "pg_timestamp ms = ms * 1000"

subsection \<open>Requests and results\<close>

text \<open>\<open>req.body\<close>, read through the keys the handlers destructure. The \<open>:device_id\<close> segment
  of a path is a string, and \<open>req.query.date\<close> is any value.\<close>

record body =
  email :: jsval
  password :: jsval
  device_id :: jsval
  temperature :: jsval
  humidity :: jsval
  air_quality :: jsval
  lpg_level :: jsval

text \<open>A handler either sends a response (status and JSON body, with the lines it logged)
  or, when a promise it awaits outside every \<open>try\<close> is rejected, sends none and lets the
  rejection, with its message, escape to Express.\<close>

datatype outcome =
    Response nat jsval
  | Unhandled string

record result =
  reply :: outcome
  store :: db
  console :: "(string \<times> string) list"

definition send :: "db \<Rightarrow> nat \<Rightarrow> jsval \<Rightarrow> result" where
  "send st code b = \<lparr>reply = Response code b, store = st, console = []\<rparr>"

definition caught :: "db \<Rightarrow> string \<Rightarrow> string \<Rightarrow> jsval \<Rightarrow> result" where
  "caught st label m b = \<lparr>reply = Response 500 b, store = st, console = [(label, m)]\<rparr>"

definition error_body :: "string \<Rightarrow> jsval" where
  "error_body m = JObj [(''error'', JStr m)]"

definition message_body :: "string \<Rightarrow> jsval" where
  "message_body m = JObj [(''message'', JStr m)]"

subsection \<open>The statements\<close>

text \<open>\<open>UPDATE users SET email = $1, password = $2 WHERE device_id = $3 RETURNING *\<close>\<close>

definition update_users :: "jsval \<Rightarrow> jsval \<Rightarrow> jsval \<Rightarrow> user list \<Rightarrow> user list" where
  "update_users em pw d us =
     map (\<lambda>u. if sql_eq (u_device_id u) d then u\<lparr>u_email := em, u_password := pw\<rparr> else u) us"

definition returning_users :: "jsval \<Rightarrow> user list \<Rightarrow> user list" where
  "returning_users d us = filter (\<lambda>u. sql_eq (u_device_id u) d) us"

text \<open>\<open>INSERT INTO users ... ON CONFLICT (device_id) DO UPDATE SET ... RETURNING *\<close>\<close>

definition upsert_users :: "jsval \<Rightarrow> jsval \<Rightarrow> jsval \<Rightarrow> user list \<Rightarrow> user list" where
  "upsert_users d em pw us =
     (if returning_users d us = []
      then us @ [\<lparr>u_device_id = d, u_email = em, u_password = pw\<rparr>]
      else update_users em pw d us)"

text \<open>\<open>SELECT * FROM users WHERE email = $1\<close>\<close>

definition select_users_by_email :: "jsval \<Rightarrow> user list \<Rightarrow> user list" where
  "select_users_by_email em us = filter (\<lambda>u. sql_eq (u_email u) em) us"

text \<open>\<open>SELECT * FROM sensor_data WHERE device_id = $1 ORDER BY timestamp DESC\<close>\<close>

definition select_readings_desc :: "jsval \<Rightarrow> reading list \<Rightarrow> reading list" where
  "select_readings_desc d rs =
     sort_key (\<lambda>r. - r_timestamp r) (filter (\<lambda>r. sql_eq (r_device_id r) d) rs)"

text \<open>\<open>SELECT * FROM sensor_data WHERE device_id = $1 AND timestamp >= $2 AND timestamp <= $3
  ORDER BY timestamp ASC\<close>\<close>

definition select_readings_between :: "jsval \<Rightarrow> int \<Rightarrow> int \<Rightarrow> reading list \<Rightarrow> reading list" where
  "select_readings_between d lo hi rs =
     sort_key r_timestamp
       (filter (\<lambda>r. sql_eq (r_device_id r) d
                    \<and> pg_timestamp lo \<le> r_timestamp r \<and> r_timestamp r \<le> pg_timestamp hi) rs)"

subsection \<open>The handlers\<close>

text \<open>\<open>PUT /api/signup\<close>\<close>

definition put_api_signup :: "env \<Rightarrow> db \<Rightarrow> body \<Rightarrow> result" where
  "put_api_signup e st b =
     (if \<not> truthy (device_id b) then send st 400 (error_body ''Device ID is required'')
      else
        (case bcrypt_hash e (password b) of
           Inl m \<Rightarrow> \<lparr>reply = Unhandled m, store = st, console = []\<rparr>
         | Inr hashedPassword \<Rightarrow>
             (case pg_error e of
                Some m \<Rightarrow> caught st ''Signup update error:'' m (error_body ''Error updating user'')
              | None \<Rightarrow>
                  (let d = prepareValue (device_id b);
                       us = update_users (prepareValue (email b)) (JStr hashedPassword) d (users st);
                       st' = st\<lparr>users := us\<rparr>
                   in case returning_users d us of
                        [] \<Rightarrow> send st' 404 (error_body ''Device ID not found'')
                      | row # rest \<Rightarrow>
                          send st' 200
                            (JObj [(''message'', JStr ''User updated successfully''),
                                   (''user'', JObj (omit ''password'' (user_row row)))])))))"

text \<open>\<open>POST /api/login\<close> (the label it logs under starts with a mark outside ASCII, which
  is left out)\<close>

definition post_api_login :: "env \<Rightarrow> db \<Rightarrow> body \<Rightarrow> result" where
  "post_api_login e st b =
     (if \<not> truthy (email b) \<or> \<not> truthy (password b)
      then send st 400 (message_body ''Missing email or password'')
      else
        (case pg_error e of
           Some m \<Rightarrow>
             caught st ''Server Error:'' m
               (JObj [(''message'', JStr ''Server error''), (''error'', JStr m)])
         | None \<Rightarrow>
             (case select_users_by_email (prepareValue (email b)) (users st) of
                [] \<Rightarrow> send st 401 (message_body ''Invalid credentials'')
              | row # rest \<Rightarrow>
                  (case bcrypt_compare e (password b) (u_password row) of
                     Inl m \<Rightarrow>
                       caught st ''Server Error:'' m
                         (JObj [(''message'', JStr ''Server error''), (''error'', JStr m)])
                   | Inr isPasswordValid \<Rightarrow>
                       if \<not> isPasswordValid
                       then send st 401 (message_body ''Invalid credentials'')
                       else send st 200
                              (JObj [(''message'', JStr ''Login successful''),
                                     (''device_id'',
                                        field (omit ''password'' (user_row row)) ''device_id'')])))))"

text \<open>\<open>POST /api/data\<close>\<close>

definition post_api_data :: "env \<Rightarrow> db \<Rightarrow> body \<Rightarrow> result" where
  "post_api_data e st b =
     (if \<not> truthy (device_id b) \<or> temperature b = JUndefined \<or> humidity b = JUndefined
         \<or> air_quality b = JUndefined \<or> lpg_level b = JUndefined
      then send st 400 (error_body ''Missing required fields'')
      else
        (case pg_error e of
           Some m \<Rightarrow> caught st ''Database error:'' m (error_body ''Failed to store data'')
         | None \<Rightarrow>
             (let row = \<lparr>r_device_id = prepareValue (device_id b),
                         r_temperature = prepareValue (temperature b),
                         r_humidity = prepareValue (humidity b),
                         r_air_quality = prepareValue (air_quality b),
                         r_lpg_level = prepareValue (lpg_level b),
                         r_timestamp = pg_now e\<rparr>
              in send (st\<lparr>sensor_data := sensor_data st @ [row]\<rparr>) 201
                   (JObj [(''message'', JStr ''Data stored successfully''),
                          (''data'', reading_row row)]))))"

text \<open>\<open>GET /api/data/:device_id\<close>\<close>

definition get_api_data :: "env \<Rightarrow> db \<Rightarrow> string \<Rightarrow> result" where
  "get_api_data e st dev =
     (case pg_error e of
        Some m \<Rightarrow> caught st ''Database error:'' m (error_body ''Failed to fetch data'')
      | None \<Rightarrow>
          send st 200 (JArr (map reading_row (select_readings_desc (JStr dev) (sensor_data st)))))"

text \<open>\<open>GET /api/data/latest/:device_id\<close> (the statement ends in \<open>LIMIT 1\<close>)\<close>

definition get_api_data_latest :: "env \<Rightarrow> db \<Rightarrow> string \<Rightarrow> result" where
  "get_api_data_latest e st dev =
     (case pg_error e of
        Some m \<Rightarrow> caught st ''Database error:'' m (error_body ''Failed to fetch latest data'')
      | None \<Rightarrow>
          (case take 1 (select_readings_desc (JStr dev) (sensor_data st)) of
             [] \<Rightarrow> send st 404 (error_body ''No data available'')
           | row # rest \<Rightarrow> send st 200 (reading_row row)))"

text \<open>\<open>GET /api/data/history/:device_id\<close>\<close>

definition get_api_data_history :: "env \<Rightarrow> db \<Rightarrow> string \<Rightarrow> jsval \<Rightarrow> result" where
  "get_api_data_history e st dev date =
     (if \<not> truthy date then send st 400 (error_body ''Date parameter is required'')
      else
        (let startDate = setUTCHours (date_fn e date) 0 0 0 0;
             endDate = setUTCHours (date_fn e date) 23 59 59 999;
             failed = (\<lambda>m. caught st ''Database error:'' m
                             (error_body ''Failed to fetch historical data''))
         in case toISOString startDate of
              Inl m \<Rightarrow> failed m
            | Inr lo \<Rightarrow>
                (case toISOString endDate of
                   Inl m \<Rightarrow> failed m
                 | Inr hi \<Rightarrow>
                     (case pg_error e of
                        Some m \<Rightarrow> failed m
                      | None \<Rightarrow>
                          (let rows = select_readings_between (JStr dev) lo hi (sensor_data st)
                           in if rows = []
                              then send st 200
                                     (message_body ''No data available for the selected date.'')
                              else send st 200 (JArr (map reading_row rows)))))))"

text \<open>\<open>POST /api/signup/admin\<close> (the statement returns the row it wrote; with no row the
  destructuring of \<open>result.rows[0]\<close> would throw inside the \<open>try\<close>)\<close>

definition post_api_signup_admin :: "env \<Rightarrow> db \<Rightarrow> body \<Rightarrow> result" where
  "post_api_signup_admin e st b =
     (if \<not> truthy (device_id b) then send st 400 (error_body ''Device ID is required'')
      else
        (case bcrypt_hash e (password b) of
           Inl m \<Rightarrow> \<lparr>reply = Unhandled m, store = st, console = []\<rparr>
         | Inr hashedPassword \<Rightarrow>
             (case pg_error e of
                Some m \<Rightarrow> caught st ''Signup error:'' m (error_body ''Error processing signup'')
              | None \<Rightarrow>
                  (let d = prepareValue (device_id b);
                       us = upsert_users d (prepareValue (email b)) (JStr hashedPassword) (users st);
                       st' = st\<lparr>users := us\<rparr>
                   in case returning_users d us of
                        [] \<Rightarrow> caught st' ''Signup error:''
                                ''result.rows[0] is undefined''
                                (error_body ''Error processing signup'')
                      | row # rest \<Rightarrow>
                          send st' 200
                            (JObj [(''message'', JStr ''User created/updated successfully''),
                                   (''user'', JObj (omit ''password'' (user_row row)))])))))"

subsection \<open>A closed environment\<close>

text \<open>Closed instances of the theorems below need functions in place of bcryptjs and of the
  \<open>Date\<close> parser. These stand-ins are used for nothing else: the hash prefixes the salt,
  and two date strings are known, the second being the last day a \<open>Date\<close> can hold.\<close>

definition demo_env :: env where
  "demo_env =
     \<lparr>hash_fn = (\<lambda>salt s. salt @ s),
      verify_fn = (\<lambda>s h. Inr (drop 4 h = s)),
      gen_salt = ''salt'',
      date_fn = (\<lambda>v. if v = JStr ''1970-01-02'' then Some 86400000
                     else if v = JStr ''+275760-09-13'' then Some 8640000000000000
                     else None),
      pg_error = None,
      pg_now = 90000000000\<rparr>"

definition demo_body :: body where
  "demo_body =
     \<lparr>email = JStr ''a@b.c'', password = JStr ''pw'', device_id = JStr ''dev1'',
      temperature = JNum 0, humidity = JNum 0, air_quality = JNum 0, lpg_level = JNum 0\<rparr>"

definition empty_db :: db where
  "empty_db = \<lparr>users = [], sensor_data = []\<rparr>"

definition day2_db :: db where
  "day2_db = \<lparr>users = [],
     sensor_data =
       [\<lparr>r_device_id = JStr ''dev1'', r_temperature = JNum 1, r_humidity = JNum 2,
         r_air_quality = JNum 3, r_lpg_level = JNum 4, r_timestamp = 172800000000\<rparr>,
        \<lparr>r_device_id = JStr ''dev1'', r_temperature = JNum 5, r_humidity = JNum 6,
         r_air_quality = JNum 7, r_lpg_level = JNum 8, r_timestamp = 172799999000\<rparr>,
        \<lparr>r_device_id = JStr ''dev1'', r_temperature = JNum 9, r_humidity = JNum 10,
         r_air_quality = JNum 11, r_lpg_level = JNum 12, r_timestamp = 86399999000\<rparr>,
        \<lparr>r_device_id = JStr ''dev2'', r_temperature = JNum 13, r_humidity = JNum 14,
         r_air_quality = JNum 15, r_lpg_level = JNum 16, r_timestamp = 90000000000\<rparr>,
        \<lparr>r_device_id = JStr ''dev1'', r_temperature = JNum 17, r_humidity = JNum 18,
         r_air_quality = JNum 19, r_lpg_level = JNum 20, r_timestamp = 86400000000\<rparr>,
        \<lparr>r_device_id = JStr ''dev1'', r_temperature = JNum 21, r_humidity = JNum 22,
         r_air_quality = JNum 23, r_lpg_level = JNum 24, r_timestamp = 172799999001\<rparr>]\<rparr>"

definition user_db :: db where
  "user_db =
     \<lparr>users = [\<lparr>u_device_id = JStr ''dev1'', u_email = JStr ''a@b.c'',
                 u_password = JStr ''saltpw''\<rparr>],
      sensor_data = []\<rparr>"

definition shared_email_db :: db where
  "shared_email_db =
     \<lparr>users = [\<lparr>u_device_id = JStr ''dev0'', u_email = JStr ''a@b.c'',
                 u_password = JStr ''saltpw''\<rparr>],
      sensor_data = []\<rparr>"

section \<open>Facts about the statements and the handlers\<close>

lemmas reply_defs = send_def caught_def error_body_def message_body_def

lemma sql_eq_JStr: "sql_eq a (JStr s) \<longleftrightarrow> a = JStr s"
  by (auto simp: sql_eq_def)

subsection \<open>Readings\<close>

lemma mset_select_readings_between:
  "mset (select_readings_between d lo hi rs) =
     filter_mset (\<lambda>r. sql_eq (r_device_id r) d
                    \<and> pg_timestamp lo \<le> r_timestamp r \<and> r_timestamp r \<le> pg_timestamp hi) (mset rs)"
  by (simp add: select_readings_between_def)

lemma sorted_select_readings_between:
  "sorted (map r_timestamp (select_readings_between d lo hi rs))"
  by (simp add: select_readings_between_def sorted_sort_key)

lemma sorted_desc_iff: "sorted_wrt (\<ge>) (map f xs) = sorted (map (\<lambda>x. - f x) xs)" for f :: "'a \<Rightarrow> int"
  by (simp add: sorted_wrt_map)

lemma sorted_select_readings_desc:
  "sorted_wrt (\<ge>) (map r_timestamp (select_readings_desc d rs))"
  unfolding sorted_desc_iff by (simp add: select_readings_desc_def sorted_sort_key)

lemma sort_key_snoc_least:
  fixes k :: "'a \<Rightarrow> int"
  assumes "\<forall>x \<in> set xs. k y < k x"
  shows "sort_key k (xs @ [y]) = y # sort_key k xs"
  using assms
proof (induction xs)
  case Nil
  then show ?case by simp
next
  case (Cons x xs)
  then have "k y < k x" and "sort_key k (xs @ [y]) = y # sort_key k xs"
    by simp_all
  then show ?case by simp
qed

lemma select_readings_desc_append_newest:
  assumes "\<forall>r \<in> set rs. sql_eq (r_device_id r) d \<longrightarrow> r_timestamp r < r_timestamp new"
    and "sql_eq (r_device_id new) d"
  shows "select_readings_desc d (rs @ [new]) = new # select_readings_desc d rs"
  using assms by (simp add: select_readings_desc_def sort_key_snoc_least)

lemma select_readings_desc_Nil_iff:
  "select_readings_desc d rs = [] \<longleftrightarrow> (\<forall>r \<in> set rs. \<not> sql_eq (r_device_id r) d)"
proof -
  have "select_readings_desc d rs = [] \<longleftrightarrow> set (select_readings_desc d rs) = {}"
    by simp
  also have "\<dots> \<longleftrightarrow> (\<forall>r \<in> set rs. \<not> sql_eq (r_device_id r) d)"
    unfolding select_readings_desc_def by auto
  finally show ?thesis .
qed

lemma latest_reply:
  "pg_error e = None \<Longrightarrow>
   reply (get_api_data_latest e st dev) =
     (case select_readings_desc (JStr dev) (sensor_data st) of
        [] \<Rightarrow> Response 404 (error_body ''No data available'')
      | row # rest \<Rightarrow> Response 200 (reading_row row))"
  by (simp add: get_api_data_latest_def send_def split: list.splits)

lemma timeClip_in_day:
  assumes "- 100000000 \<le> n" and "n < 100000000" and "0 \<le> k" and "k < 86400000"
  shows "timeClip (n * msPerDay + k) = Some (n * msPerDay + k)"
  using assms by (simp add: timeClip_def msPerDay_def abs_le_iff)

lemma timeClip_last_day:
  assumes "100000000 \<le> n" and "0 < k"
  shows "timeClip (n * msPerDay + k) = None"
  using assms by (simp add: timeClip_def msPerDay_def)

lemma history_valid:
  assumes "truthy date" "date_fn e date = Some t" "pg_error e = None"
    and "- 100000000 \<le> t div msPerDay" and "t div msPerDay < 100000000"
  shows "get_api_data_history e st dev date =
     (let rows = select_readings_between (JStr dev) ((t div msPerDay) * msPerDay)
                   ((t div msPerDay) * msPerDay + 86399999) (sensor_data st)
      in if rows = [] then send st 200 (message_body ''No data available for the selected date.'')
         else send st 200 (JArr (map reading_row rows)))"
proof -
  have "timeClip ((t div msPerDay) * msPerDay) = Some ((t div msPerDay) * msPerDay)"
    using timeClip_in_day [OF assms(4,5), of 0] by simp
  moreover have "timeClip ((t div msPerDay) * msPerDay + 86399999)
      = Some ((t div msPerDay) * msPerDay + 86399999)"
    using timeClip_in_day [OF assms(4,5), of 86399999] by simp
  ultimately show ?thesis
    using assms(1-3)
    by (simp add: get_api_data_history_def setUTCHours_def toISOString_def Let_def)
qed

lemma history_last_day:
  assumes "truthy date" "date_fn e date = Some t" and "100000000 \<le> t div msPerDay"
  shows "get_api_data_history e st dev date =
     caught st ''Database error:'' ''Invalid time value''
       (error_body ''Failed to fetch historical data'')"
proof -
  have "timeClip ((t div msPerDay) * msPerDay + 86399999) = None"
    using timeClip_last_day [OF assms(3), of 86399999] by simp
  then show ?thesis
    using assms(1,2)
    by (simp add: get_api_data_history_def setUTCHours_def toISOString_def Let_def
        split: option.splits)
qed

subsection \<open>Users\<close>

lemma safe_user [simp]:
  "omit ''password'' (user_row u) = [(''device_id'', u_device_id u), (''email'', u_email u)]"
  by (simp add: omit_def user_row_def)

lemma safe_device_id [simp]:
  "field [(''device_id'', d), (''email'', em)] ''device_id'' = d"
  by (simp add: field_def)

lemma returning_users_subset: "set (returning_users d us) \<subseteq> set us"
  by (auto simp: returning_users_def)

lemma update_users_row:
  assumes "u \<in> set (update_users em pw d us)"
  shows "(sql_eq (u_device_id u) d \<and> u_email u = em \<and> u_password u = pw)
       \<or> (\<not> sql_eq (u_device_id u) d \<and> u \<in> set us)"
  using assms by (auto simp: update_users_def split: if_splits)

lemma upsert_users_returning:
  "d \<noteq> JNull \<Longrightarrow> returning_users d (upsert_users d em pw us) \<noteq> []"
  by (induction us) (auto simp: upsert_users_def returning_users_def update_users_def sql_eq_def)

lemma upsert_users_row:
  assumes "u \<in> set (upsert_users d em pw us)" and "d \<noteq> JNull"
  shows "(sql_eq (u_device_id u) d \<and> u_email u = em \<and> u_password u = pw)
       \<or> (\<not> sql_eq (u_device_id u) d \<and> u \<in> set us)"
  using assms
  by (auto simp: upsert_users_def returning_users_def update_users_def filter_empty_conv
      sql_eq_def split: if_splits)

lemma admin_success:
  assumes "truthy (device_id b)" and "password b = JStr p" and "pg_error e = None"
  shows "\<exists>row rest.
      returning_users (device_id b)
        (upsert_users (device_id b) (prepareValue (email b))
           (JStr (hash_fn e (gen_salt e) p)) (users st)) = row # rest
      \<and> post_api_signup_admin e st b =
          send (st\<lparr>users := upsert_users (device_id b) (prepareValue (email b))
                   (JStr (hash_fn e (gen_salt e) p)) (users st)\<rparr>) 200
            (JObj [(''message'', JStr ''User created/updated successfully''),
                   (''user'', JObj (omit ''password'' (user_row row)))])"
proof -
  from assms(1) have d: "device_id b \<noteq> JNull" "prepareValue (device_id b) = device_id b"
    by (auto simp: prepareValue_def)
  let ?us = "upsert_users (device_id b) (prepareValue (email b))
           (JStr (hash_fn e (gen_salt e) p)) (users st)"
  from d(1) obtain row rest where r: "returning_users (device_id b) ?us = row # rest"
    using upsert_users_returning [of "device_id b"] by (meson list.exhaust)
  with assms d show ?thesis
    by (simp add: post_api_signup_admin_def bcrypt_hash_def Let_def)
qed

lemma admin_ok:
  assumes "reply (post_api_signup_admin e st b) = Response 200 j"
  shows "truthy (device_id b) \<and> pg_error e = None \<and> (\<exists>p. password b = JStr p)"
proof -
  from assms have t: "truthy (device_id b)"
    by (auto simp: post_api_signup_admin_def reply_defs split: if_splits)
  from assms t obtain p where p: "password b = JStr p"
    by (cases "password b") (auto simp: post_api_signup_admin_def bcrypt_hash_def)
  from assms t p have "pg_error e = None"
    by (cases "pg_error e") (auto simp: post_api_signup_admin_def bcrypt_hash_def reply_defs)
  with t p show ?thesis by blast
qed

lemma signup_ok:
  assumes "reply (put_api_signup e st b) = Response 200 j"
  shows "\<exists>p row rest. password b = JStr p
      \<and> returning_users (device_id b)
           (update_users (prepareValue (email b)) (JStr (hash_fn e (gen_salt e) p))
              (device_id b) (users st)) = row # rest
      \<and> put_api_signup e st b =
          send (st\<lparr>users := update_users (prepareValue (email b))
                   (JStr (hash_fn e (gen_salt e) p)) (device_id b) (users st)\<rparr>) 200
            (JObj [(''message'', JStr ''User updated successfully''),
                   (''user'', JObj [(''device_id'', u_device_id row), (''email'', u_email row)])])"
proof -
  from assms have t: "truthy (device_id b)"
    by (auto simp: put_api_signup_def reply_defs split: if_splits)
  then have d: "prepareValue (device_id b) = device_id b"
    by (auto simp: prepareValue_def)
  from assms t obtain p where p: "password b = JStr p"
    by (cases "password b") (auto simp: put_api_signup_def bcrypt_hash_def)
  from assms t p have ok: "pg_error e = None"
    by (cases "pg_error e") (auto simp: put_api_signup_def bcrypt_hash_def reply_defs)
  let ?us = "update_users (prepareValue (email b)) (JStr (hash_fn e (gen_salt e) p))
              (device_id b) (users st)"
  from assms t p ok d obtain row rest where "returning_users (device_id b) ?us = row # rest"
    by (cases "returning_users (device_id b) ?us")
      (auto simp: put_api_signup_def bcrypt_hash_def reply_defs Let_def)
  with t p ok d show ?thesis
    by (simp add: put_api_signup_def bcrypt_hash_def Let_def)
qed

section \<open>The claims\<close>

subsection \<open>C1: admin signup, then login\<close>

text \<open>
  As stated, C1 fails. \<open>POST /api/login\<close> answers 400 when the email (or the password) is
  the empty string, although \<open>POST /api/signup/admin\<close> accepted it; and when a row of
  another device already holds the email, the lookup by email returns that row first, so
  the login is checked against the other device's hash.
\<close>

theorem admin_then_login_counterexample:
  "(\<exists>j. reply (post_api_signup_admin demo_env empty_db (demo_body\<lparr>email := JStr []\<rparr>))
          = Response 200 j)
   \<and> reply (post_api_login demo_env
              (store (post_api_signup_admin demo_env empty_db (demo_body\<lparr>email := JStr []\<rparr>)))
              (demo_body\<lparr>email := JStr []\<rparr>))
       = Response 400 (message_body ''Missing email or password'')
   \<and> (\<exists>j. reply (post_api_signup_admin demo_env shared_email_db
                  (demo_body\<lparr>password := JStr ''pw2''\<rparr>))
          = Response 200 j)
   \<and> reply (post_api_login demo_env
              (store (post_api_signup_admin demo_env shared_email_db
                  (demo_body\<lparr>password := JStr ''pw2''\<rparr>)))
              (demo_body\<lparr>password := JStr ''pw2''\<rparr>))
       = Response 401 (message_body ''Invalid credentials'')"
  by (simp add: post_api_signup_admin_def post_api_login_def demo_body_def demo_env_def
      empty_db_def shared_email_db_def bcrypt_hash_def bcrypt_compare_def prepareValue_def
      upsert_users_def update_users_def returning_users_def select_users_by_email_def
              sql_eq_def reply_defs Let_def)

text \<open>
  C1, amended. Let the email \<open>E\<close>, the password \<open>P\<close> and the device id \<open>D\<close> be non-empty
  strings, let both statements succeed, let bcryptjs verify \<open>P\<close> against the hash it made of
  \<open>P\<close>, and let no row of another device hold the email \<open>E\<close>. Then
  \<open>POST /api/signup/admin\<close> with \<open>(E, P, D)\<close> answers 200, and \<open>POST /api/login\<close> with
  \<open>(E, P)\<close> on the resulting table answers 200 with \<open>device_id = D\<close>.
\<close>

theorem admin_then_login:
  assumes "E \<noteq> []" and "P \<noteq> []" and "D \<noteq> []"
    and "email b1 = JStr E" and "password b1 = JStr P" and "device_id b1 = JStr D"
    and "email b2 = JStr E" and "password b2 = JStr P"
    and "pg_error e1 = None" and "pg_error e2 = None"
    and "verify_fn e2 P (hash_fn e1 (gen_salt e1) P) = Inr True"
    and "\<forall>u \<in> set (users st). u_email u = JStr E \<longrightarrow> u_device_id u = JStr D"
  shows "(\<exists>j. reply (post_api_signup_admin e1 st b1) = Response 200 j)
       \<and> reply (post_api_login e2 (store (post_api_signup_admin e1 st b1)) b2) =
           Response 200 (JObj [(''message'', JStr ''Login successful''),
                               (''device_id'', JStr D)])"
proof -
  let ?h = "JStr (hash_fn e1 (gen_salt e1) P)"
  let ?us = "upsert_users (JStr D) (JStr E) ?h (users st)"
  have t: "truthy (device_id b1)" using assms by simp
  from admin_success [OF t assms(5) assms(9), of st] assms
  obtain row0 rest0 where ret: "returning_users (JStr D) ?us = row0 # rest0"
    and adm: "post_api_signup_admin e1 st b1 =
          send (st\<lparr>users := ?us\<rparr>) 200
            (JObj [(''message'', JStr ''User created/updated successfully''),
                   (''user'', JObj (omit ''password'' (user_row row0)))])"
    by (auto simp: prepareValue_def)
  have all: "u_device_id u = JStr D \<and> u_password u = ?h"
    if "u \<in> set (select_users_by_email (JStr E) ?us)" for u
  proof -
    from that have "u \<in> set ?us" and em: "u_email u = JStr E"
      by (auto simp: select_users_by_email_def sql_eq_def)
    from upsert_users_row [OF this(1)] em assms(12) show ?thesis
      by (auto simp: sql_eq_def)
  qed
  have "row0 \<in> set (returning_users (JStr D) ?us)"
    using ret by simp
  then have "row0 \<in> set ?us" and "sql_eq (u_device_id row0) (JStr D)"
    by (simp_all add: returning_users_def)
  with upsert_users_row [of row0 "JStr D" "JStr E" ?h "users st"]
  have "row0 \<in> set (select_users_by_email (JStr E) ?us)"
    by (auto simp: select_users_by_email_def sql_eq_def)
  then obtain row rest where sel: "select_users_by_email (JStr E) ?us = row # rest"
    by (cases "select_users_by_email (JStr E) ?us") auto
  with all [of row] have row: "u_device_id row = JStr D" "u_password row = ?h"
    by simp_all
  have "reply (post_api_login e2 (st\<lparr>users := ?us\<rparr>) b2) =
           Response 200 (JObj [(''message'', JStr ''Login successful''),
                               (''device_id'', JStr D)])"
    using assms sel row
    by (simp add: post_api_login_def prepareValue_def bcrypt_compare_def send_def
        field_def omit_def user_row_def)
  with adm show ?thesis by (simp add: send_def)
qed

theorem admin_then_login_witness:
  "(\<exists>j. reply (post_api_signup_admin demo_env user_db demo_body) = Response 200 j)
       \<and> reply (post_api_login demo_env (store (post_api_signup_admin demo_env user_db demo_body))
                 demo_body) =
           Response 200 (JObj [(''message'', JStr ''Login successful''),
                               (''device_id'', JStr ''dev1'')])"
  using admin_then_login [of "''a@b.c''" "''pw''" "''dev1''" demo_body demo_body
      demo_env demo_env user_db]
  by (simp add: demo_body_def demo_env_def user_db_def)

subsection \<open>C2: the two login failures\<close>

text \<open>
  When the email and the password are non-empty strings, the two failures are answered
  alike: 401 with the body \<open>{message: "Invalid credentials"}\<close>, nothing logged, the tables
  untouched.
\<close>

lemma login_failures_identical:
  assumes "email b1 = JStr m1" and "m1 \<noteq> []" and "password b1 = JStr p1" and "p1 \<noteq> []"
    and "pg_error e1 = None"
    and "select_users_by_email (JStr m1) (users st1) = []"
    and "email b2 = JStr m2" and "m2 \<noteq> []" and "password b2 = JStr p2" and "p2 \<noteq> []"
    and "pg_error e2 = None"
    and "\<forall>row \<in> set (select_users_by_email (JStr m2) (users st2)).
           \<exists>c. u_password row = JStr c \<and> verify_fn e2 p2 c = Inr False"
  shows "post_api_login e1 st1 b1 =
           \<lparr>reply = Response 401 (message_body ''Invalid credentials''), store = st1,
            console = []\<rparr>"
    and "post_api_login e2 st2 b2 =
           \<lparr>reply = Response 401 (message_body ''Invalid credentials''), store = st2,
            console = []\<rparr>"
proof -
  show "post_api_login e1 st1 b1 =
           \<lparr>reply = Response 401 (message_body ''Invalid credentials''), store = st1,
            console = []\<rparr>"
    using assms(1-6) by (simp add: post_api_login_def prepareValue_def send_def)
  show "post_api_login e2 st2 b2 =
           \<lparr>reply = Response 401 (message_body ''Invalid credentials''), store = st2,
            console = []\<rparr>"
  proof (cases "select_users_by_email (JStr m2) (users st2)")
    case Nil
    with assms(7-11) show ?thesis
      by (simp add: post_api_login_def prepareValue_def send_def)
  next
    case (Cons row rest)
    with assms(12) obtain c where "u_password row = JStr c" "verify_fn e2 p2 c = Inr False"
      by auto
    with Cons assms(7-11) show ?thesis
      by (simp add: post_api_login_def prepareValue_def bcrypt_compare_def send_def)
  qed
qed

text \<open>
  C2. The handler asks only whether the password is present. When it is present and is
  no string (a JSON number, say), a login with an email that matches no row is answered
  401, while a login with an email that matches rows makes \<open>bcrypt.compare\<close> reject, and
  the \<open>catch\<close> answers 500 with the message of the rejection: the caller can tell a known
  email from an unknown one.
\<close>

theorem login_nonstring_password_distinguishes:
  assumes "email b = JStr m" and "m \<noteq> []"
    and "truthy (password b)" and "typeof (password b) \<noteq> ''string''"
    and "pg_error e = None"
  shows "(select_users_by_email (JStr m) (users st) = [] \<longrightarrow>
            reply (post_api_login e st b) = Response 401 (message_body ''Invalid credentials''))
       \<and> (select_users_by_email (JStr m) (users st) \<noteq> [] \<longrightarrow>
            (\<exists>row \<in> set (select_users_by_email (JStr m) (users st)).
               reply (post_api_login e st b) =
                 Response 500
                   (JObj [(''message'', JStr ''Server error''),
                          (''error'', JStr (''Illegal arguments: '' @ typeof (password b)
                                            @ '', '' @ typeof (u_password row)))])))"
proof (intro conjI impI)
  assume "select_users_by_email (JStr m) (users st) = []"
  with assms show
    "reply (post_api_login e st b) = Response 401 (message_body ''Invalid credentials'')"
    by (simp add: post_api_login_def prepareValue_def send_def)
next
  assume "select_users_by_email (JStr m) (users st) \<noteq> []"
  then obtain row rest where sel: "select_users_by_email (JStr m) (users st) = row # rest"
    by (cases "select_users_by_email (JStr m) (users st)") auto
  from assms(4) have "bcrypt_compare e (password b) (u_password row) =
      Inl (''Illegal arguments: '' @ typeof (password b) @ '', '' @ typeof (u_password row))"
    by (cases "password b") (simp_all add: bcrypt_compare_def)
  with assms sel have "reply (post_api_login e st b) =
      Response 500
        (JObj [(''message'', JStr ''Server error''),
               (''error'', JStr (''Illegal arguments: '' @ typeof (password b)
                                 @ '', '' @ typeof (u_password row)))])"
    by (simp add: post_api_login_def prepareValue_def caught_def)
  with sel show "\<exists>row \<in> set (select_users_by_email (JStr m) (users st)).
               reply (post_api_login e st b) =
                 Response 500
                   (JObj [(''message'', JStr ''Server error''),
                          (''error'', JStr (''Illegal arguments: '' @ typeof (password b)
                                            @ '', '' @ typeof (u_password row)))])"
    by auto
qed

theorem login_nonstring_password_distinguishes_witness:
  "reply (post_api_login demo_env user_db
            (demo_body\<lparr>email := JStr ''x@y.z'', password := JNum 123\<rparr>))
       = Response 401 (message_body ''Invalid credentials'')
   \<and> reply (post_api_login demo_env user_db (demo_body\<lparr>password := JNum 123\<rparr>))
       = Response 500 (JObj [(''message'', JStr ''Server error''),
                             (''error'', JStr ''Illegal arguments: number, string'')])"
  using login_nonstring_password_distinguishes
      [of "demo_body\<lparr>email := JStr ''x@y.z'', password := JNum 123\<rparr>" "''x@y.z''" demo_env user_db]
    login_nonstring_password_distinguishes
      [of "demo_body\<lparr>password := JNum 123\<rparr>" "''a@b.c''" demo_env user_db]
  by (simp add: demo_body_def demo_env_def user_db_def select_users_by_email_def sql_eq_def)

subsection \<open>C3: the window of a history query\<close>

text \<open>
  As stated, C3 fails on the last day a \<open>Date\<close> can hold, \<open>+275760-09-13\<close>: the date
  parses to the time value 8.64e15, \<open>endDate.setUTCHours(23, 59, 59, 999)\<close> leaves the
  range, \<open>endDate\<close> becomes invalid and \<open>toISOString\<close> throws, so the answer is 500.
\<close>

theorem history_window_counterexample:
  "date_fn demo_env (JStr ''+275760-09-13'') = Some 8640000000000000
   \<and> pg_error demo_env = None
   \<and> get_api_data_history demo_env day2_db ''dev1'' (JStr ''+275760-09-13'') =
       \<lparr>reply = Response 500 (error_body ''Failed to fetch historical data''),
        store = day2_db, console = [(''Database error:'', ''Invalid time value'')]\<rparr>"
  by (simp add: get_api_data_history_def demo_env_def setUTCHours_def timeClip_def
      toISOString_def msPerDay_def reply_defs)

text \<open>
  C3, amended. Let the \<open>date\<close> parameter be present and parse to an instant of the UTC day
  \<open>D\<close> with number \<open>n\<close> (days since the epoch), let the whole of day \<open>D\<close> lie in the range
  of \<open>Date\<close> (\<open>- 100000000 \<le> n < 100000000\<close>, every day before \<open>+275760-09-13\<close>), and let
  the statement succeed. Then \<open>GET /api/data/history/:device_id\<close> answers 200 with
  exactly the stored rows of that device whose timestamp lies between
  \<open>D 00:00:00.000Z\<close> and \<open>D 23:59:59.999Z\<close>, both included: in microseconds, from
  \<open>n * msPerDay * 1000\<close> to \<open>((n + 1) * msPerDay - 1) * 1000\<close>. The rows are compared as a
  multiset, and the marker message stands for no row. Every row outside the window is
  left out, whether by a millisecond or by less.
\<close>

theorem history_window:
  assumes "truthy date" and "date_fn e date = Some t" and "t div msPerDay = n"
    and "- 100000000 \<le> n" and "n < 100000000"
    and "pg_error e = None"
  shows "\<exists>rows.
      mset rows = filter_mset (\<lambda>r. r_device_id r = JStr dev
                        \<and> (n * msPerDay) * 1000 \<le> r_timestamp r
                        \<and> r_timestamp r \<le> ((n + 1) * msPerDay - 1) * 1000)
                    (mset (sensor_data st))
      \<and> reply (get_api_data_history e st dev date) =
            Response 200 (if rows = [] then message_body ''No data available for the selected date.''
                          else JArr (map reading_row rows))"
proof -
  let ?rows = "select_readings_between (JStr dev) (n * msPerDay) (n * msPerDay + 86399999)
                 (sensor_data st)"
  have hi: "(n + 1) * msPerDay - 1 = n * msPerDay + 86399999"
    by (simp add: msPerDay_def algebra_simps)
  have "mset ?rows = filter_mset (\<lambda>r. r_device_id r = JStr dev
                        \<and> (n * msPerDay) * 1000 \<le> r_timestamp r
                        \<and> r_timestamp r \<le> ((n + 1) * msPerDay - 1) * 1000)
                    (mset (sensor_data st))"
    unfolding hi mset_select_readings_between
    by (rule filter_mset_cong) (auto simp: sql_eq_def pg_timestamp_def)
  moreover have "get_api_data_history e st dev date =
      (let rows = ?rows
       in if rows = [] then send st 200 (message_body ''No data available for the selected date.'')
          else send st 200 (JArr (map reading_row rows)))"
    using history_valid [OF assms(1) assms(2) assms(6)] assms(3,4,5) by simp
  then have "reply (get_api_data_history e st dev date) =
            Response 200 (if ?rows = [] then message_body ''No data available for the selected date.''
                          else JArr (map reading_row ?rows))"
    by (simp add: Let_def send_def)
  ultimately show ?thesis by blast
qed

theorem history_window_witness:
  "\<exists>rows. mset rows =
       {#\<lparr>r_device_id = JStr ''dev1'', r_temperature = JNum 5, r_humidity = JNum 6,
         r_air_quality = JNum 7, r_lpg_level = JNum 8, r_timestamp = 172799999000\<rparr>,
         \<lparr>r_device_id = JStr ''dev1'', r_temperature = JNum 17, r_humidity = JNum 18,
         r_air_quality = JNum 19, r_lpg_level = JNum 20, r_timestamp = 86400000000\<rparr>#}
     \<and> reply (get_api_data_history demo_env day2_db ''dev1'' (JStr ''1970-01-02'')) =
         Response 200 (if rows = [] then message_body ''No data available for the selected date.''
                          else JArr (map reading_row rows))"
  using history_window [of "JStr ''1970-01-02''" demo_env 86400000 1 "''dev1''" day2_db]
  by (simp add: demo_env_def day2_db_def msPerDay_def)

subsection \<open>C4: the order of the rows\<close>

text \<open>
  C4. Whenever \<open>GET /api/data/:device_id\<close> answers 200, its body is the array of the
  stored rows of the device in non-increasing order of timestamp; whenever
  \<open>GET /api/data/history/:device_id\<close> answers 200 with an array, it holds stored rows of
  the device in non-decreasing order of timestamp.
\<close>

theorem readings_ordered:
  "(\<forall>j. reply (get_api_data e st dev) = Response 200 j \<longrightarrow>
      (\<exists>rows. j = JArr (map reading_row rows)
         \<and> mset rows = filter_mset (\<lambda>r. r_device_id r = JStr dev) (mset (sensor_data st))
         \<and> sorted_wrt (\<ge>) (map r_timestamp rows)))
   \<and> (\<forall>js. reply (get_api_data_history e st dev date) = Response 200 (JArr js) \<longrightarrow>
      (\<exists>rows. js = map reading_row rows
         \<and> set rows \<subseteq> {r \<in> set (sensor_data st). r_device_id r = JStr dev}
         \<and> sorted (map r_timestamp rows)))"
proof (intro conjI allI impI)
  fix j
  let ?rows = "select_readings_desc (JStr dev) (sensor_data st)"
  assume "reply (get_api_data e st dev) = Response 200 j"
  then have "j = JArr (map reading_row ?rows)"
    by (auto simp: get_api_data_def reply_defs split: option.splits)
  moreover have "mset ?rows = filter_mset (\<lambda>r. r_device_id r = JStr dev) (mset (sensor_data st))"
    by (simp add: select_readings_desc_def sql_eq_JStr)
  ultimately show "\<exists>rows. j = JArr (map reading_row rows)
         \<and> mset rows = filter_mset (\<lambda>r. r_device_id r = JStr dev) (mset (sensor_data st))
         \<and> sorted_wrt (\<ge>) (map r_timestamp rows)"
    using sorted_select_readings_desc by blast
next
  fix js
  assume "reply (get_api_data_history e st dev date) = Response 200 (JArr js)"
  then obtain lo hi where
    "js = map reading_row (select_readings_between (JStr dev) lo hi (sensor_data st))"
    by (auto simp: get_api_data_history_def reply_defs Let_def
        split: option.splits sum.splits if_splits)
  moreover have "set (select_readings_between (JStr dev) lo hi (sensor_data st))
      \<subseteq> {r \<in> set (sensor_data st). r_device_id r = JStr dev}"
    by (auto simp: select_readings_between_def sql_eq_JStr)
  ultimately show "\<exists>rows. js = map reading_row rows
         \<and> set rows \<subseteq> {r \<in> set (sensor_data st). r_device_id r = JStr dev}
         \<and> sorted (map r_timestamp rows)"
    using sorted_select_readings_between by blast
qed

theorem readings_ordered_witness:
  "(\<exists>rows. reply (get_api_data demo_env day2_db ''dev1'') = Response 200 (JArr (map reading_row rows))
       \<and> length rows = 5 \<and> sorted_wrt (\<ge>) (map r_timestamp rows))
   \<and> (\<exists>rows. reply (get_api_data_history demo_env day2_db ''dev1'' (JStr ''1970-01-02''))
         = Response 200 (JArr (map reading_row rows))
       \<and> length rows = 2 \<and> sorted (map r_timestamp rows))"
proof -
  have "\<exists>js. reply (get_api_data demo_env day2_db ''dev1'') = Response 200 (JArr js)
          \<and> length js = 5"
    by (simp add: get_api_data_def demo_env_def day2_db_def reply_defs select_readings_desc_def
        sql_eq_def)
  moreover have "\<exists>js. reply (get_api_data_history demo_env day2_db ''dev1'' (JStr ''1970-01-02''))
        = Response 200 (JArr js) \<and> length js = 2"
    by (simp add: get_api_data_history_def demo_env_def day2_db_def reply_defs
        select_readings_between_def sql_eq_def setUTCHours_def timeClip_def toISOString_def
        msPerDay_def pg_timestamp_def)
  ultimately obtain js1 js2 where
      j1: "reply (get_api_data demo_env day2_db ''dev1'') = Response 200 (JArr js1)"
        "length js1 = 5"
      and j2: "reply (get_api_data_history demo_env day2_db ''dev1'' (JStr ''1970-01-02''))
        = Response 200 (JArr js2)" "length js2 = 2"
    by blast
  note th = readings_ordered [of demo_env day2_db "''dev1''" "JStr ''1970-01-02''"]
  from th j1(1) obtain rows1 where
    "JArr js1 = JArr (map reading_row rows1)" "sorted_wrt (\<ge>) (map r_timestamp rows1)"
    by blast
  moreover from th j2(1) obtain rows2 where
    "js2 = map reading_row rows2" "sorted (map r_timestamp rows2)"
    by blast
  ultimately show ?thesis
    using j1 j2 by auto
qed

subsection \<open>C5: validation of an ingested reading\<close>

text \<open>
  C5. \<open>POST /api/data\<close>: when \<open>device_id\<close> is falsy (empty or absent) or one of
  \<open>temperature\<close>, \<open>humidity\<close>, \<open>air_quality\<close>, \<open>lpg_level\<close> is \<open>undefined\<close>, the response is
  400 with the validation message and the tables are unchanged. When \<open>device_id\<close> is truthy
  and none of the four is \<open>undefined\<close> (zero included), the response is never a 400, and
  if the statement succeeds it is 201 and the row, with the values as sent, is appended.
\<close>

theorem ingest_validation:
  "(\<not> truthy (device_id b) \<or> temperature b = JUndefined \<or> humidity b = JUndefined
      \<or> air_quality b = JUndefined \<or> lpg_level b = JUndefined
      \<longrightarrow> reply (post_api_data e st b) = Response 400 (error_body ''Missing required fields'')
          \<and> store (post_api_data e st b) = st)
   \<and> (truthy (device_id b) \<and> temperature b \<noteq> JUndefined \<and> humidity b \<noteq> JUndefined
        \<and> air_quality b \<noteq> JUndefined \<and> lpg_level b \<noteq> JUndefined
      \<longrightarrow> (\<forall>j. reply (post_api_data e st b) \<noteq> Response 400 j)
          \<and> (pg_error e = None \<longrightarrow>
                (\<exists>j. reply (post_api_data e st b) = Response 201 j)
                \<and> sensor_data (store (post_api_data e st b)) =
                    sensor_data st @
                      [\<lparr>r_device_id = device_id b, r_temperature = temperature b,
                        r_humidity = humidity b, r_air_quality = air_quality b,
                        r_lpg_level = lpg_level b, r_timestamp = pg_now e\<rparr>]))"
  by (auto simp: post_api_data_def send_def caught_def Let_def prepareValue_def
      split: option.splits)

theorem ingest_validation_witness:
  "reply (post_api_data demo_env empty_db (demo_body\<lparr>humidity := JUndefined\<rparr>))
     = Response 400 (error_body ''Missing required fields'')
   \<and> store (post_api_data demo_env empty_db (demo_body\<lparr>humidity := JUndefined\<rparr>)) = empty_db
   \<and> reply (post_api_data demo_env empty_db demo_body)
       \<noteq> Response 400 (error_body ''Missing required fields'')
   \<and> sensor_data (store (post_api_data demo_env empty_db demo_body)) =
       [\<lparr>r_device_id = JStr ''dev1'', r_temperature = JNum 0, r_humidity = JNum 0,
         r_air_quality = JNum 0, r_lpg_level = JNum 0, r_timestamp = 90000000000\<rparr>]"
  using ingest_validation [of "demo_body\<lparr>humidity := JUndefined\<rparr>" demo_env empty_db]
    ingest_validation [of demo_body demo_env empty_db]
  by (simp add: demo_body_def demo_env_def empty_db_def)

subsection \<open>C6: the latest reading\<close>

text \<open>
  As stated, C6 fails when a stored row of the device carries a timestamp that is not
  earlier than the \<open>NOW()\<close> of the new row. The new row of \<open>dev2\<close> is stored at the very
  timestamp of an older row of \<open>dev2\<close>, and the new row of \<open>dev1\<close> at a timestamp before
  that of a stored row of \<open>dev1\<close>; both calls answer 201, and in both cases
  \<open>ORDER BY timestamp DESC LIMIT 1\<close> gives the older row with its own values.
\<close>

theorem ingest_then_latest_counterexample:
  "reply (post_api_data demo_env day2_db (demo_body\<lparr>device_id := JStr ''dev2''\<rparr>)) =
     Response 201
       (JObj [(''message'', JStr ''Data stored successfully''),
              (''data'', JObj [(''device_id'', JStr ''dev2''), (''temperature'', JNum 0),
                               (''humidity'', JNum 0), (''air_quality'', JNum 0),
                               (''lpg_level'', JNum 0), (''timestamp'', JDate 90000000)])])
   \<and> reply (get_api_data_latest demo_env
              (store (post_api_data demo_env day2_db (demo_body\<lparr>device_id := JStr ''dev2''\<rparr>)))
              ''dev2'') =
     Response 200
       (JObj [(''device_id'', JStr ''dev2''), (''temperature'', JNum 13),
              (''humidity'', JNum 14), (''air_quality'', JNum 15),
              (''lpg_level'', JNum 16), (''timestamp'', JDate 90000000)])
   \<and> reply (post_api_data demo_env day2_db demo_body) =
     Response 201
       (JObj [(''message'', JStr ''Data stored successfully''),
              (''data'', JObj [(''device_id'', JStr ''dev1''), (''temperature'', JNum 0),
                               (''humidity'', JNum 0), (''air_quality'', JNum 0),
                               (''lpg_level'', JNum 0), (''timestamp'', JDate 90000000)])])
   \<and> reply (get_api_data_latest demo_env (store (post_api_data demo_env day2_db demo_body))
              ''dev1'') =
     Response 200
       (JObj [(''device_id'', JStr ''dev1''), (''temperature'', JNum 1),
              (''humidity'', JNum 2), (''air_quality'', JNum 3),
              (''lpg_level'', JNum 4), (''timestamp'', JDate 172800000)])"
  by (simp add: post_api_data_def get_api_data_latest_def demo_env_def demo_body_def
      day2_db_def prepareValue_def select_readings_desc_def sql_eq_def reading_row_def
      reply_defs Let_def)

text \<open>
  C6, amended. Let \<open>POST /api/data\<close> succeed for the device \<open>d\<close> (a non-empty string) at a
  time \<open>NOW()\<close> strictly later than every stored timestamp of \<open>d\<close>, and let the statement
  of the \<open>GET /api/data/latest/d\<close> that follows succeed. Then that call answers 200, and
  its body holds the device id and the four values just sent, with the timestamp
  \<open>NOW()\<close> in whole milliseconds. And when its statement succeeds,
  \<open>GET /api/data/latest/d\<close> answers 404 exactly when no row of \<open>d\<close> is stored.
\<close>

theorem ingest_then_latest:
  "(d \<noteq> [] \<and> device_id b = JStr d \<and> temperature b \<noteq> JUndefined \<and> humidity b \<noteq> JUndefined
      \<and> air_quality b \<noteq> JUndefined \<and> lpg_level b \<noteq> JUndefined
      \<and> pg_error e1 = None \<and> pg_error e2 = None
      \<and> (\<forall>r \<in> set (sensor_data st). r_device_id r = JStr d \<longrightarrow> r_timestamp r < pg_now e1)
    \<longrightarrow> reply (post_api_data e1 st b) =
          Response 201
            (JObj [(''message'', JStr ''Data stored successfully''),
                   (''data'', JObj [(''device_id'', JStr d), (''temperature'', temperature b),
                                    (''humidity'', humidity b),
                                    (''air_quality'', air_quality b),
                                    (''lpg_level'', lpg_level b),
                                    (''timestamp'', JDate (pg_now e1 div 1000))])])
        \<and> reply (get_api_data_latest e2 (store (post_api_data e1 st b)) d) =
          Response 200
            (JObj [(''device_id'', JStr d), (''temperature'', temperature b),
                   (''humidity'', humidity b), (''air_quality'', air_quality b),
                   (''lpg_level'', lpg_level b),
                   (''timestamp'', JDate (pg_now e1 div 1000))]))
   \<and> (pg_error e = None \<longrightarrow>
        ((\<exists>j. reply (get_api_data_latest e st d) = Response 404 j)
           \<longleftrightarrow> (\<forall>r \<in> set (sensor_data st). r_device_id r \<noteq> JStr d)))"
proof (intro conjI impI)
  assume a: "d \<noteq> [] \<and> device_id b = JStr d \<and> temperature b \<noteq> JUndefined
      \<and> humidity b \<noteq> JUndefined \<and> air_quality b \<noteq> JUndefined \<and> lpg_level b \<noteq> JUndefined
      \<and> pg_error e1 = None \<and> pg_error e2 = None
      \<and> (\<forall>r \<in> set (sensor_data st). r_device_id r = JStr d \<longrightarrow> r_timestamp r < pg_now e1)"
  let ?new = "\<lparr>r_device_id = JStr d, r_temperature = temperature b,
                r_humidity = humidity b, r_air_quality = air_quality b,
                r_lpg_level = lpg_level b, r_timestamp = pg_now e1\<rparr>"
  from a have post: "post_api_data e1 st b =
      send (st\<lparr>sensor_data := sensor_data st @ [?new]\<rparr>) 201
        (JObj [(''message'', JStr ''Data stored successfully''), (''data'', reading_row ?new)])"
    by (simp add: post_api_data_def prepareValue_def Let_def)
  then show "reply (post_api_data e1 st b) =
          Response 201
            (JObj [(''message'', JStr ''Data stored successfully''),
                   (''data'', JObj [(''device_id'', JStr d), (''temperature'', temperature b),
                                    (''humidity'', humidity b),
                                    (''air_quality'', air_quality b),
                                    (''lpg_level'', lpg_level b),
                                    (''timestamp'', JDate (pg_now e1 div 1000))])])"
    by (simp add: send_def reading_row_def)
  from a have "select_readings_desc (JStr d) (sensor_data st @ [?new])
      = ?new # select_readings_desc (JStr d) (sensor_data st)"
    by (intro select_readings_desc_append_newest) (auto simp: sql_eq_def)
  with a post have "reply (get_api_data_latest e2 (store (post_api_data e1 st b)) d) =
      Response 200 (reading_row ?new)"
    by (simp add: latest_reply send_def)
  then show "reply (get_api_data_latest e2 (store (post_api_data e1 st b)) d) =
          Response 200
            (JObj [(''device_id'', JStr d), (''temperature'', temperature b),
                   (''humidity'', humidity b), (''air_quality'', air_quality b),
                   (''lpg_level'', lpg_level b),
                   (''timestamp'', JDate (pg_now e1 div 1000))])"
    by (simp add: reading_row_def)
next
  assume ok: "pg_error e = None"
  have "(\<exists>j. reply (get_api_data_latest e st d) = Response 404 j)
      \<longleftrightarrow> select_readings_desc (JStr d) (sensor_data st) = []"
    using ok by (simp add: latest_reply split: list.splits)
  then show "(\<exists>j. reply (get_api_data_latest e st d) = Response 404 j)
           \<longleftrightarrow> (\<forall>r \<in> set (sensor_data st). r_device_id r \<noteq> JStr d)"
    by (simp add: select_readings_desc_Nil_iff sql_eq_JStr)
qed

theorem ingest_then_latest_witness:
  "reply (get_api_data_latest demo_env
            (store (post_api_data (demo_env\<lparr>pg_now := 172800001000\<rparr>) day2_db demo_body))
            ''dev1'') =
     Response 200
       (JObj [(''device_id'', JStr ''dev1''), (''temperature'', JNum 0),
              (''humidity'', JNum 0), (''air_quality'', JNum 0),
              (''lpg_level'', JNum 0), (''timestamp'', JDate 172800001)])
   \<and> (\<exists>j. reply (get_api_data_latest demo_env day2_db ''dev3'') = Response 404 j)
   \<and> (\<nexists>j. reply (get_api_data_latest demo_env day2_db ''dev2'') = Response 404 j)"
  using ingest_then_latest [of "''dev1''" demo_body "demo_env\<lparr>pg_now := 172800001000\<rparr>" demo_env day2_db demo_env]
    ingest_then_latest [of "''dev3''" demo_body demo_env demo_env day2_db demo_env]
    ingest_then_latest [of "''dev2''" demo_body demo_env demo_env day2_db demo_env]
  by (simp add: demo_body_def demo_env_def day2_db_def)

subsection \<open>C7: what a 500 response shows\<close>

text \<open>
  Six handlers answer a failed statement with a fixed message.
\<close>

lemma generic_500:
  shows "reply (put_api_signup e st b) = Response 500 j \<Longrightarrow> j = error_body ''Error updating user''"
    and "reply (post_api_data e st b) = Response 500 j \<Longrightarrow> j = error_body ''Failed to store data''"
    and "reply (get_api_data e st dev) = Response 500 j \<Longrightarrow> j = error_body ''Failed to fetch data''"
    and "reply (get_api_data_latest e st dev) = Response 500 j
         \<Longrightarrow> j = error_body ''Failed to fetch latest data''"
    and "reply (get_api_data_history e st dev date) = Response 500 j
         \<Longrightarrow> j = error_body ''Failed to fetch historical data''"
    and "reply (post_api_signup_admin e st b) = Response 500 j
         \<Longrightarrow> j = error_body ''Error processing signup''"
proof -
  show "reply (put_api_signup e st b) = Response 500 j \<Longrightarrow> j = error_body ''Error updating user''"
    by (auto simp: put_api_signup_def send_def caught_def Let_def
        split: if_splits sum.splits option.splits list.splits)
  show "reply (post_api_data e st b) = Response 500 j \<Longrightarrow> j = error_body ''Failed to store data''"
    by (auto simp: post_api_data_def send_def caught_def Let_def
        split: if_splits option.splits)
  show "reply (get_api_data e st dev) = Response 500 j \<Longrightarrow> j = error_body ''Failed to fetch data''"
    by (auto simp: get_api_data_def send_def caught_def split: option.splits)
  show "reply (get_api_data_latest e st dev) = Response 500 j
         \<Longrightarrow> j = error_body ''Failed to fetch latest data''"
    by (auto simp: get_api_data_latest_def send_def caught_def
        split: option.splits list.splits)
  show "reply (get_api_data_history e st dev date) = Response 500 j
         \<Longrightarrow> j = error_body ''Failed to fetch historical data''"
    by (auto simp: get_api_data_history_def send_def caught_def Let_def
        split: if_splits sum.splits option.splits)
  show "reply (post_api_signup_admin e st b) = Response 500 j
         \<Longrightarrow> j = error_body ''Error processing signup''"
    by (auto simp: post_api_signup_admin_def send_def caught_def Let_def
        split: if_splits sum.splits option.splits list.splits)
qed

text \<open>
  C7. \<open>POST /api/login\<close> does not: when email and password are present and its
  statement fails, the message of the failure is copied into the body of the 500 response
  under the key \<open>error\<close> (and logged).
\<close>

theorem login_store_error_in_body:
  assumes "truthy (email b)" and "truthy (password b)" and "pg_error e = Some m"
  shows "post_api_login e st b =
     \<lparr>reply = Response 500 (JObj [(''message'', JStr ''Server error''), (''error'', JStr m)]),
      store = st, console = [(''Server Error:'', m)]\<rparr>"
  using assms by (simp add: post_api_login_def caught_def)

theorem login_store_error_in_body_witness:
  "post_api_login (demo_env\<lparr>pg_error := Some ''connect ECONNREFUSED 10.1.2.3:5432''\<rparr>)
       empty_db demo_body =
     \<lparr>reply = Response 500
        (JObj [(''message'', JStr ''Server error''),
               (''error'', JStr ''connect ECONNREFUSED 10.1.2.3:5432'')]),
      store = empty_db,
      console = [(''Server Error:'', ''connect ECONNREFUSED 10.1.2.3:5432'')]\<rparr>"
  using login_store_error_in_body [of demo_body
      "demo_env\<lparr>pg_error := Some ''connect ECONNREFUSED 10.1.2.3:5432''\<rparr>"
      "''connect ECONNREFUSED 10.1.2.3:5432''" empty_db]
  by (simp add: demo_body_def demo_env_def)

subsection \<open>C8: failures outside \<open>try\<close>\<close>

text \<open>
  \<open>POST /api/login\<close> runs wholly inside its \<open>try\<close> and always responds.
\<close>

lemma login_always_responds: "\<exists>code j. reply (post_api_login e st b) = Response code j"
  by (simp add: post_api_login_def send_def caught_def
      split: option.splits list.splits sum.splits)

text \<open>
  C8. \<open>PUT /api/signup\<close> and \<open>POST /api/signup/admin\<close> await \<open>bcrypt.hash\<close> before their
  \<open>try\<close>: with a device id and a password that is missing (or is no string) the
  rejection escapes the handler, no response is sent and nothing is logged.
\<close>

theorem signup_missing_password_escapes:
  assumes "truthy (device_id b)" and "typeof (password b) \<noteq> ''string''"
  shows "put_api_signup e st b =
           \<lparr>reply = Unhandled (''Illegal arguments: '' @ typeof (password b) @ '', number''),
            store = st, console = []\<rparr>
       \<and> post_api_signup_admin e st b =
           \<lparr>reply = Unhandled (''Illegal arguments: '' @ typeof (password b) @ '', number''),
            store = st, console = []\<rparr>"
  using assms
  by (cases "password b")
    (simp_all add: put_api_signup_def post_api_signup_admin_def bcrypt_hash_def)

theorem signup_missing_password_escapes_witness:
  "reply (put_api_signup demo_env empty_db (demo_body\<lparr>password := JUndefined\<rparr>))
     = Unhandled ''Illegal arguments: undefined, number''
   \<and> reply (post_api_signup_admin demo_env empty_db (demo_body\<lparr>password := JUndefined\<rparr>))
     = Unhandled ''Illegal arguments: undefined, number''"
  using signup_missing_password_escapes [of "demo_body\<lparr>password := JUndefined\<rparr>" demo_env empty_db]
  by (simp add: demo_body_def)

subsection \<open>C9: stored passwords and user records in responses\<close>

text \<open>
  C9. Let the hash never return its own plaintext under this request's salt, as a
  one-way hash does not. When \<open>PUT /api/signup\<close> or \<open>POST /api/signup/admin\<close> answers 200,
  the password sent is a string \<open>p\<close>; the row returned holds as its password the hash of
  \<open>p\<close>, which is not the plaintext; every row of the table afterwards is a row of the
  table before or holds that hash, not the plaintext; and the user object of the body
  has the keys \<open>device_id\<close> and \<open>email\<close> only. \<open>POST /api/login\<close> leaves the tables as they
  are, and its 200 body holds the message and the device id of a stored row, nothing
  else.
\<close>

theorem passwords_hashed_and_stripped:
  assumes nofix: "\<forall>p. hash_fn e (gen_salt e) p \<noteq> p"
  shows "(\<forall>j. reply (put_api_signup e st b) = Response 200 j \<longrightarrow>
      (\<exists>p row. password b = JStr p
         \<and> row \<in> set (users (store (put_api_signup e st b)))
         \<and> u_password row = JStr (hash_fn e (gen_salt e) p)
         \<and> u_password row \<noteq> password b
         \<and> j = JObj [(''message'', JStr ''User updated successfully''),
                     (''user'', JObj [(''device_id'', u_device_id row), (''email'', u_email row)])]
         \<and> (\<forall>u \<in> set (users (store (put_api_signup e st b))).
               u \<in> set (users st)
               \<or> (u_password u = JStr (hash_fn e (gen_salt e) p)
                   \<and> u_password u \<noteq> password b))))
   \<and> (\<forall>j. reply (post_api_signup_admin e st b) = Response 200 j \<longrightarrow>
      (\<exists>p row. password b = JStr p
         \<and> row \<in> set (users (store (post_api_signup_admin e st b)))
         \<and> u_password row = JStr (hash_fn e (gen_salt e) p)
         \<and> u_password row \<noteq> password b
         \<and> j = JObj [(''message'', JStr ''User created/updated successfully''),
                     (''user'', JObj [(''device_id'', u_device_id row), (''email'', u_email row)])]
         \<and> (\<forall>u \<in> set (users (store (post_api_signup_admin e st b))).
               u \<in> set (users st)
               \<or> (u_password u = JStr (hash_fn e (gen_salt e) p)
                   \<and> u_password u \<noteq> password b))))
   \<and> store (post_api_login e st b) = st
   \<and> (\<forall>j. reply (post_api_login e st b) = Response 200 j \<longrightarrow>
      (\<exists>row \<in> set (users st).
         j = JObj [(''message'', JStr ''Login successful''), (''device_id'', u_device_id row)]))"
proof (intro conjI allI impI)
  fix j
  assume r: "reply (put_api_signup e st b) = Response 200 j"
  from signup_ok [OF this] obtain p row rest where p: "password b = JStr p"
    and ret: "returning_users (device_id b)
           (update_users (prepareValue (email b)) (JStr (hash_fn e (gen_salt e) p))
              (device_id b) (users st)) = row # rest"
    and eq: "put_api_signup e st b =
          send (st\<lparr>users := update_users (prepareValue (email b))
                   (JStr (hash_fn e (gen_salt e) p)) (device_id b) (users st)\<rparr>) 200
            (JObj [(''message'', JStr ''User updated successfully''),
                   (''user'', JObj [(''device_id'', u_device_id row), (''email'', u_email row)])])"
    by blast
  let ?h = "JStr (hash_fn e (gen_salt e) p)"
  let ?us = "update_users (prepareValue (email b)) ?h (device_id b) (users st)"
  from nofix p have ne: "?h \<noteq> password b" by simp
  from ret have "row \<in> set (returning_users (device_id b) ?us)" by simp
  then have row: "row \<in> set ?us" "sql_eq (u_device_id row) (device_id b)"
    by (simp_all add: returning_users_def)
  with update_users_row [of row] have rp: "u_password row = ?h" by auto
  have all: "\<forall>u \<in> set ?us. u \<in> set (users st) \<or> (u_password u = ?h \<and> u_password u \<noteq> password b)"
    using update_users_row ne by fastforce
  have st': "users (store (put_api_signup e st b)) = ?us"
    by (simp add: eq send_def)
  from r have j: "j = JObj [(''message'', JStr ''User updated successfully''),
                   (''user'', JObj [(''device_id'', u_device_id row), (''email'', u_email row)])]"
    by (simp add: eq send_def)
  show "\<exists>p row. password b = JStr p
         \<and> row \<in> set (users (store (put_api_signup e st b)))
         \<and> u_password row = JStr (hash_fn e (gen_salt e) p)
         \<and> u_password row \<noteq> password b
         \<and> j = JObj [(''message'', JStr ''User updated successfully''),
                     (''user'', JObj [(''device_id'', u_device_id row), (''email'', u_email row)])]
         \<and> (\<forall>u \<in> set (users (store (put_api_signup e st b))).
               u \<in> set (users st)
               \<or> (u_password u = JStr (hash_fn e (gen_salt e) p)
                   \<and> u_password u \<noteq> password b))"
    unfolding st' using p row(1) rp ne j all by (intro exI [of _ p] exI [of _ row]) simp
next
  fix j
  assume a: "reply (post_api_signup_admin e st b) = Response 200 j"
  from admin_ok [OF a] obtain p where t: "truthy (device_id b)" and ok: "pg_error e = None"
    and p: "password b = JStr p"
    by blast
  let ?h = "JStr (hash_fn e (gen_salt e) p)"
  let ?us = "upsert_users (device_id b) (prepareValue (email b)) ?h (users st)"
  from admin_success [OF t p ok, of st] obtain row rest where
    ret: "returning_users (device_id b) ?us = row # rest"
    and eq: "post_api_signup_admin e st b =
          send (st\<lparr>users := ?us\<rparr>) 200
            (JObj [(''message'', JStr ''User created/updated successfully''),
                   (''user'', JObj (omit ''password'' (user_row row)))])"
    by blast
  from t have nn: "device_id b \<noteq> JNull" by auto
  from nofix p have ne: "?h \<noteq> password b" by simp
  from ret have "row \<in> set (returning_users (device_id b) ?us)" by simp
  then have row: "row \<in> set ?us" "sql_eq (u_device_id row) (device_id b)"
    by (simp_all add: returning_users_def)
  with upsert_users_row [OF _ nn, of row] have rp: "u_password row = ?h" by auto
  have all: "\<forall>u \<in> set ?us. u \<in> set (users st) \<or> (u_password u = ?h \<and> u_password u \<noteq> password b)"
    using upsert_users_row [OF _ nn] ne by fastforce
  have st': "users (store (post_api_signup_admin e st b)) = ?us"
    by (simp add: eq send_def)
  from a have j: "j = JObj [(''message'', JStr ''User created/updated successfully''),
                   (''user'', JObj [(''device_id'', u_device_id row), (''email'', u_email row)])]"
    by (simp add: eq send_def)
  show "\<exists>p row. password b = JStr p
         \<and> row \<in> set (users (store (post_api_signup_admin e st b)))
         \<and> u_password row = JStr (hash_fn e (gen_salt e) p)
         \<and> u_password row \<noteq> password b
         \<and> j = JObj [(''message'', JStr ''User created/updated successfully''),
                     (''user'', JObj [(''device_id'', u_device_id row), (''email'', u_email row)])]
         \<and> (\<forall>u \<in> set (users (store (post_api_signup_admin e st b))).
               u \<in> set (users st)
               \<or> (u_password u = JStr (hash_fn e (gen_salt e) p)
                   \<and> u_password u \<noteq> password b))"
    unfolding st' using p row(1) rp ne j all by (intro exI [of _ p] exI [of _ row]) simp
next
  show "store (post_api_login e st b) = st"
    by (simp add: post_api_login_def reply_defs split: option.splits list.splits sum.splits)
next
  fix j
  assume "reply (post_api_login e st b) = Response 200 j"
  then obtain row rest where
    "select_users_by_email (prepareValue (email b)) (users st) = row # rest"
    and "j = JObj [(''message'', JStr ''Login successful''), (''device_id'', u_device_id row)]"
    by (auto simp: post_api_login_def reply_defs
        split: option.splits list.splits sum.splits if_splits)
  moreover from this(1) have "row \<in> set (select_users_by_email (prepareValue (email b)) (users st))"
    by simp
  then have "row \<in> set (users st)"
    by (simp add: select_users_by_email_def)
  ultimately show "\<exists>row \<in> set (users st).
         j = JObj [(''message'', JStr ''Login successful''), (''device_id'', u_device_id row)]"
    by blast
qed

theorem passwords_hashed_and_stripped_witness:
  "(\<forall>p. hash_fn demo_env (gen_salt demo_env) p \<noteq> p)
   \<and> reply (put_api_signup demo_env user_db (demo_body\<lparr>password := JStr ''new''\<rparr>)) =
     Response 200 (JObj [(''message'', JStr ''User updated successfully''),
                     (''user'', JObj [(''device_id'', JStr ''dev1''), (''email'', JStr ''a@b.c'')])])
   \<and> map u_password (users (store (put_api_signup demo_env user_db
              (demo_body\<lparr>password := JStr ''new''\<rparr>)))) = [JStr ''saltnew'']
   \<and> reply (post_api_signup_admin demo_env empty_db demo_body) =
     Response 200 (JObj [(''message'', JStr ''User created/updated successfully''),
                     (''user'', JObj [(''device_id'', JStr ''dev1''), (''email'', JStr ''a@b.c'')])])
   \<and> map u_password (users (store (post_api_signup_admin demo_env empty_db demo_body)))
       = [JStr ''saltpw'']
   \<and> reply (post_api_login demo_env user_db demo_body) =
     Response 200 (JObj [(''message'', JStr ''Login successful''), (''device_id'', JStr ''dev1'')])"
proof -
  have nofix: "\<forall>p. hash_fn demo_env (gen_salt demo_env) p \<noteq> p"
    by (simp add: demo_env_def)
  show ?thesis
    using nofix
      passwords_hashed_and_stripped [OF nofix, of user_db "demo_body\<lparr>password := JStr ''new''\<rparr>"]
      passwords_hashed_and_stripped [OF nofix, of empty_db demo_body]
      passwords_hashed_and_stripped [OF nofix, of user_db demo_body]
    by (simp add: put_api_signup_def post_api_signup_admin_def post_api_login_def demo_body_def
        demo_env_def empty_db_def user_db_def bcrypt_hash_def bcrypt_compare_def prepareValue_def
        upsert_users_def update_users_def returning_users_def select_users_by_email_def
        sql_eq_def reply_defs Let_def)
qed

subsection \<open>C10: a date that does not parse\<close>

text \<open>
  As stated, C10 fails for a date parameter that is present but empty: \<open>?date=\<close> does
  not parse, and the answer is 400, not 500.
\<close>

theorem history_empty_date_counterexample:
  "reply (get_api_data_history demo_env empty_db ''dev1'' (JStr [])) =
     Response 400 (error_body ''Date parameter is required'')
   \<and> date_fn demo_env (JStr []) = None"
  by (simp add: get_api_data_history_def demo_env_def reply_defs)

text \<open>
  C10, amended. When the date parameter is truthy (present and not empty) and does not
  parse, \<open>toISOString\<close> throws inside the \<open>try\<close> and
  \<open>GET /api/data/history/:device_id\<close> answers 500 with its fixed message, logging
  the error. It answers 400 exactly when the parameter is falsy (absent or empty).
\<close>

theorem history_date_errors:
  "(truthy date \<and> date_fn e date = None \<longrightarrow>
      get_api_data_history e st dev date =
        \<lparr>reply = Response 500 (error_body ''Failed to fetch historical data''),
         store = st, console = [(''Database error:'', ''Invalid time value'')]\<rparr>)
   \<and> ((\<exists>j. reply (get_api_data_history e st dev date) = Response 400 j) \<longleftrightarrow> \<not> truthy date)"
  by (auto simp: get_api_data_history_def reply_defs Let_def setUTCHours_def toISOString_def
      split: option.splits sum.splits if_splits)

theorem history_date_errors_witness:
  "get_api_data_history demo_env empty_db ''dev1'' (JStr ''tomorrow'') =
        \<lparr>reply = Response 500 (error_body ''Failed to fetch historical data''),
         store = empty_db, console = [(''Database error:'', ''Invalid time value'')]\<rparr>
   \<and> (\<exists>j. reply (get_api_data_history demo_env empty_db ''dev1'' JUndefined) = Response 400 j)"
  using history_date_errors [of "JStr ''tomorrow''" demo_env empty_db "''dev1''"]
    history_date_errors [of JUndefined demo_env empty_db "''dev1''"]
  by (simp add: demo_env_def)

end
